theory Spec2Isabelle
  imports Complex_Main "HOL-Library.Word"
begin

section \<open>SPMatch command-line driver: data model\<close>

text \<open>
  The development embeds \<^verbatim>\<open>src/spmatch.cpp\<close>: \<^verbatim>\<open>setDefaults\<close>, the stream
  extraction operator of \<^verbatim>\<open>Params::OutOfBounds\<close>, \<^verbatim>\<open>writeDisparityMap\<close> and
  \<^verbatim>\<open>main\<close>. Exceptions are values of a sum type (\<open>Inl\<close> carries the exception);
  an exception that leaves \<^verbatim>\<open>main\<close> is the outcome \<open>Uncaught\<close>.
\<close>

datatype exn =
    RuntimeError string      \<comment> \<open>\<^verbatim>\<open>std::runtime_error(what)\<close>\<close>
  | RequiredOption string    \<comment> \<open>\<^verbatim>\<open>po::required_option\<close>, raised by \<^verbatim>\<open>po::notify\<close>\<close>
  | OutOfRange               \<comment> \<open>\<^verbatim>\<open>std::out_of_range\<close>, raised by \<^verbatim>\<open>std::string\<close>\<close>
  | ImageIOError string      \<comment> \<open>raised by the image collaborator (load or save)\<close>
  | ComputeError string      \<comment> \<open>raised inside the disparity computation\<close>

datatype OutOfBounds = REPEAT_PIXEL | BLACK_PIXEL | ZERO_COST | ERROR | NAN_COST

text \<open>
  \<^verbatim>\<open>unsigned\<close> and \<^verbatim>\<open>int\<close> are 32-bit words; an \<^verbatim>\<open>int\<close> is read with \<open>sint\<close>.
\<close>

type_synonym unsigned = "32 word"
type_synonym cint = "32 word"

text \<open>
  The global \<^verbatim>\<open>params\<close>. \<^verbatim>\<open>params.hpp\<close> is not among the sources; the field
  types are those of the \<^verbatim>\<open>po::value<T>(&params.X)\<close> bindings in \<^verbatim>\<open>main\<close>:
  \<^verbatim>\<open>double\<close>, \<^verbatim>\<open>unsigned\<close>, \<^verbatim>\<open>int\<close>, \<^verbatim>\<open>bool\<close> and the enum. The driver only
  stores and forwards the \<^verbatim>\<open>double\<close> fields, so they are kept as reals.
\<close>

record Params =
  ALFA :: real
  TAU_COL :: real
  TAU_GRAD :: real
  GAMMA :: real
  WINDOW_SIZE :: unsigned
  MIN_D :: cint
  MAX_D :: cint
  ITERATIONS :: unsigned
  MAX_SLOPE :: real
  NORMALIZE_GRADIENTS :: bool
  OUT_OF_BOUNDS :: OutOfBounds
  RESIZE_WINDOWS :: bool
  PLANES_SATURATION :: bool
  USE_PSEUDORAND :: bool
  CONST_DISPARITIES :: bool
  LOG :: cint

definition setDefaults :: Params where
  "setDefaults =
     \<lparr> ALFA = 0.5, TAU_COL = 60, TAU_GRAD = 30, GAMMA = 15,
       WINDOW_SIZE = 35, MIN_D = 0, MAX_D = 70, ITERATIONS = 3, MAX_SLOPE = 45,
       NORMALIZE_GRADIENTS = True, OUT_OF_BOUNDS = NAN_COST, RESIZE_WINDOWS = True,
       PLANES_SATURATION = True, USE_PSEUDORAND = False, CONST_DISPARITIES = False,
       LOG = 1 \<rparr>"

subsection \<open>Stream extraction of \<^verbatim>\<open>Params::OutOfBounds\<close>\<close>

text \<open>
  \<^verbatim>\<open>operator>>(std::istream&, Params::OutOfBounds&)\<close>. The argument is the token
  that \<^verbatim>\<open>in >> token\<close> extracted; the result is the value assigned to
  \<^verbatim>\<open>selection\<close>, or the exception thrown by the last branch.
\<close>

definition operator_in :: "string \<Rightarrow> exn + OutOfBounds" where
  "operator_in token =
     (if token = ''repeat'' then Inr REPEAT_PIXEL
      else if token = ''black'' then Inr BLACK_PIXEL
      else if token = ''zero'' then Inr ZERO_COST
      else if token = ''error'' then Inr ERROR
      else if token = ''nan'' then Inr NAN_COST
      else Inl (RuntimeError ''Invalid OutOfBounds selection''))"

subsection \<open>The parsed command line\<close>

text \<open>
  \<^verbatim>\<open>po::command_line_parser(argc, argv)...run()\<close> is library code. Its result is
  taken as the input of the model: for each declared option the value given on the
  command line, if any. Numeric and boolean values are already of their C++ type; the
  value of \<^verbatim>\<open>--out_of_bounds\<close> is still the token, because its conversion is the
  repository's own \<^verbatim>\<open>operator>>\<close>, which \<^verbatim>\<open>po::store\<close> calls. \<open>arg_inputs\<close>
  collects the tokens of \<^verbatim>\<open>--inputs\<close> or the positional arguments; it is empty when
  the option is absent. A command line that the library's parser rejects by itself (an
  unknown option, a value that is not of the option's type, a third positional
  argument) has no value of this type.
\<close>

record cmdline =
  arg_help :: bool
  arg_output :: "string option"
  arg_inputs :: "string list"
  arg_log :: "cint option"
  arg_alfa :: "real option"
  arg_tau_col :: "real option"
  arg_tau_grad :: "real option"
  arg_gamma :: "real option"
  arg_window_size :: "unsigned option"
  arg_min_d :: "cint option"
  arg_max_d :: "cint option"
  arg_iteration :: "unsigned option"
  arg_max_slope :: "real option"
  arg_normalize_gradients :: "bool option"
  arg_out_of_bounds :: "string option"
  arg_resize_window :: "bool option"
  arg_planes_saturation :: "bool option"
  arg_use_pseudorand :: "bool option"
  arg_const_disparities :: "bool option"

text \<open>\<^verbatim>\<open>po::variables_map\<close>: the options with the enum token converted.\<close>

record variables_map =
  vm_args :: cmdline
  vm_out_of_bounds :: "OutOfBounds option"

text \<open>
  \<^verbatim>\<open>po::store\<close> (line 106) converts each value; the conversion of the
  \<^verbatim>\<open>out_of_bounds\<close> token runs \<^verbatim>\<open>operator>>\<close>, whose exception leaves \<^verbatim>\<open>main\<close>.
\<close>

definition store :: "cmdline \<Rightarrow> exn + variables_map" where
  "store cl =
     (case arg_out_of_bounds cl of
        None \<Rightarrow> Inr \<lparr> vm_args = cl, vm_out_of_bounds = None \<rparr>
      | Some token \<Rightarrow>
          (case operator_in token of
             Inl e \<Rightarrow> Inl e
           | Inr selection \<Rightarrow> Inr \<lparr> vm_args = cl, vm_out_of_bounds = Some selection \<rparr>))"

definition count_help :: "variables_map \<Rightarrow> bool" where
  "count_help vMap = arg_help (vm_args vMap)"

text \<open>A bound variable keeps its current value unless the option was given.\<close>

definition bound :: "'a option \<Rightarrow> 'a \<Rightarrow> 'a" where
  "bound v cur = (case v of None \<Rightarrow> cur | Some x \<Rightarrow> x)"

text \<open>
  \<^verbatim>\<open>po::notify\<close> (line 116): fails when the required option \<^verbatim>\<open>inputs\<close> is absent,
  otherwise writes every bound variable: the fields of \<^verbatim>\<open>params\<close>,
  \<^verbatim>\<open>inputImages\<close> and \<^verbatim>\<open>outputPath\<close> (default \<^verbatim>\<open>disparity.png\<close>).
\<close>

definition notify :: "variables_map \<Rightarrow> Params \<Rightarrow> exn + (Params \<times> string list \<times> string)" where
  "notify vMap params =
     (let cl = vm_args vMap in
      if arg_inputs cl = [] then Inl (RequiredOption ''inputs'')
      else Inr
        (\<lparr> ALFA = bound (arg_alfa cl) (ALFA params),
           TAU_COL = bound (arg_tau_col cl) (TAU_COL params),
           TAU_GRAD = bound (arg_tau_grad cl) (TAU_GRAD params),
           GAMMA = bound (arg_gamma cl) (GAMMA params),
           WINDOW_SIZE = bound (arg_window_size cl) (WINDOW_SIZE params),
           MIN_D = bound (arg_min_d cl) (MIN_D params),
           MAX_D = bound (arg_max_d cl) (MAX_D params),
           ITERATIONS = bound (arg_iteration cl) (ITERATIONS params),
           MAX_SLOPE = bound (arg_max_slope cl) (MAX_SLOPE params),
           NORMALIZE_GRADIENTS = bound (arg_normalize_gradients cl) (NORMALIZE_GRADIENTS params),
           OUT_OF_BOUNDS = bound (vm_out_of_bounds vMap) (OUT_OF_BOUNDS params),
           RESIZE_WINDOWS = bound (arg_resize_window cl) (RESIZE_WINDOWS params),
           PLANES_SATURATION = bound (arg_planes_saturation cl) (PLANES_SATURATION params),
           USE_PSEUDORAND = bound (arg_use_pseudorand cl) (USE_PSEUDORAND params),
           CONST_DISPARITIES = bound (arg_const_disparities cl) (CONST_DISPARITIES params),
           LOG = bound (arg_log cl) (LOG params) \<rparr>,
         arg_inputs cl,
         bound (arg_output cl) ''disparity.png''))"

section \<open>Strings, files and streams\<close>

subsection \<open>\<^verbatim>\<open>std::string\<close> operations used by \<^verbatim>\<open>writeDisparityMap\<close>\<close>

text \<open>
  \<^verbatim>\<open>s.rfind(c)\<close>: the index of the last occurrence of \<open>c\<close>, or \<^verbatim>\<open>npos\<close>. \<^verbatim>\<open>npos\<close>
  is the largest \<^verbatim>\<open>size_t\<close> and exceeds the length of every string, so it is kept
  apart as \<open>None\<close>. The scan goes left to right and remembers the last match.
\<close>

primrec rfind_scan :: "char \<Rightarrow> string \<Rightarrow> nat \<Rightarrow> nat option \<Rightarrow> nat option" where
  "rfind_scan c [] i found = found"
| "rfind_scan c (x # xs) i found = rfind_scan c xs (Suc i) (if x = c then Some i else found)"

definition rfind :: "string \<Rightarrow> char \<Rightarrow> nat option" where
  "rfind s c = rfind_scan c s 0 None"

text \<open>
  \<^verbatim>\<open>s.insert(pos, t)\<close> and \<^verbatim>\<open>s.replace(pos, len, t)\<close> throw \<^verbatim>\<open>std::out_of_range\<close>
  when \<^verbatim>\<open>pos > s.size()\<close>, which is the case for \<^verbatim>\<open>npos\<close>. \<^verbatim>\<open>replace\<close> removes
  \<^verbatim>\<open>min(len, size - pos)\<close> characters at \<^verbatim>\<open>pos\<close> and puts \<open>t\<close> there.
\<close>

definition insert_str :: "string \<Rightarrow> nat option \<Rightarrow> string \<Rightarrow> exn + string" where
  "insert_str s pos t =
     (case pos of
        None \<Rightarrow> Inl OutOfRange
      | Some p \<Rightarrow> if p > length s then Inl OutOfRange else Inr (take p s @ t @ drop p s))"

definition replace_str :: "string \<Rightarrow> nat option \<Rightarrow> nat \<Rightarrow> string \<Rightarrow> exn + string" where
  "replace_str s pos len t =
     (case pos of
        None \<Rightarrow> Inl OutOfRange
      | Some p \<Rightarrow>
          if p > length s then Inl OutOfRange
          else Inr (take p s @ t @ drop (p + min len (length s - p)) s))"

text \<open>Decimal rendering of a \<^verbatim>\<open>size_t\<close> by \<^verbatim>\<open>operator<<\<close>.\<close>

definition digit_char :: "nat \<Rightarrow> char" where
  "digit_char d = char_of (48 + d)"

fun decimal :: "nat \<Rightarrow> string" where
  "decimal n = (if n < 10 then [digit_char n] else decimal (n div 10) @ [digit_char (n mod 10)])"

declare decimal.simps [simp del]

subsection \<open>The file system as the driver sees it\<close>

text \<open>
  \<open>readable p\<close>: \<^verbatim>\<open>std::ifstream f(p); f.good()\<close>. \<open>writable p\<close>: opening \<open>p\<close> for
  writing succeeds.
\<close>

record filesys =
  readable :: "string \<Rightarrow> bool"
  writable :: "string \<Rightarrow> bool"

subsection \<open>Images\<close>

text \<open>
  Modelled from the spec: the methods of \<^verbatim>\<open>Image\<close> that \<^verbatim>\<open>writeDisparityMap\<close> calls
  (\<^verbatim>\<open>size\<close>, \<^verbatim>\<open>get\<close>, \<^verbatim>\<open>normalize\<close>, \<^verbatim>\<open>setPath\<close>, \<^verbatim>\<open>write\<close>) are declared in a
  header that is not among the sources. The fields are those of the class \<^verbatim>\<open>Image\<close>
  of \<^verbatim>\<open>include/image.hpp\<close>: the path, the pixel array, the width and the height. A
  disparity map is a dense \<open>W \<times> H\<close> array of values; \<^verbatim>\<open>size(0)\<close> is \<open>W\<close>,
  \<^verbatim>\<open>size(1)\<close> is \<open>H\<close>, \<^verbatim>\<open>get(w,h)\<close> reads one value. The type of the values is a
  parameter: the driver only passes them on.
\<close>

record 'px Image =
  imgPath :: string
  width :: nat
  height :: nat
  pixel :: "nat \<Rightarrow> nat \<Rightarrow> 'px"

definition size_img :: "'px Image \<Rightarrow> nat \<Rightarrow> nat" where
  "size_img img d = (if d = 0 then width img else height img)"

definition get :: "'px Image \<Rightarrow> nat \<Rightarrow> nat \<Rightarrow> 'px" where
  "get img w h = pixel img w h"

definition setPath :: "'px Image \<Rightarrow> string \<Rightarrow> 'px Image" where
  "setPath img p = img\<lparr>imgPath := p\<rparr>"

text \<open>
  The collaborators whose bodies are not among the sources are parameters of the model:
  the constructor of \<^verbatim>\<open>StereoImage\<close> (decodes an image file, may throw), the method
  \<^verbatim>\<open>StereoImagePair::computeDisparity\<close> (reads the global \<^verbatim>\<open>params\<close>, may throw),
  \<^verbatim>\<open>Image::normalize\<close>, and the formatting of a \<^verbatim>\<open>double\<close> by \<^verbatim>\<open>operator<<\<close> at a
  given stream precision. The result of \<^verbatim>\<open>computeDisparity\<close> has the type that its
  caller in \<^verbatim>\<open>spmatch.cpp\<close> requires: lines 218 and 219 bind \<^verbatim>\<open>disparities.first\<close> and
  \<^verbatim>\<open>disparities.second\<close> to two \<^verbatim>\<open>Image&\<close>. (The declaration in
  \<^verbatim>\<open>include/image.hpp\<close>, line 88, has the result type \<^verbatim>\<open>Image\<close>; the class \<^verbatim>\<open>Image\<close> of
  that header has none of the methods called in \<^verbatim>\<open>writeDisparityMap\<close>, so it is not
  the declaration that \<^verbatim>\<open>spmatch.cpp\<close> is compiled against.)
\<close>

record 'px collaborators =
  loadImage :: "string \<Rightarrow> exn + 'px Image"
  computeDisparity :: "Params \<Rightarrow> 'px Image \<times> 'px Image \<Rightarrow> exn + ('px Image \<times> 'px Image)"
  normalizeImage :: "'px Image \<Rightarrow> 'px Image"
  formatDouble :: "nat \<Rightarrow> 'px \<Rightarrow> string"

subsection \<open>Observable effects\<close>

datatype 'px content = Text string | Picture "'px Image"

datatype 'px event =
    Printed string                 \<comment> \<open>text sent to \<^verbatim>\<open>std::cout\<close>\<close>
  | LoadImage string               \<comment> \<open>an image file is handed to the decoder\<close>
  | ComputeDisparity Params        \<comment> \<open>\<^verbatim>\<open>computeDisparity\<close> is entered with these \<^verbatim>\<open>params\<close>\<close>
  | Wrote string "'px content"     \<comment> \<open>a file is created with this content\<close>

text \<open>
  A step yields the events it caused and its result or exception. \<open>seq\<close> runs the
  next step only after a normal return, as C++ sequencing without \<^verbatim>\<open>try\<close> blocks does.
\<close>

type_synonym ('px, 'a) step = "'px event list \<times> (exn + 'a)"

definition lift :: "exn + 'a \<Rightarrow> ('px, 'a) step" where
  "lift r = ([], r)"

definition seq :: "('px, 'a) step \<Rightarrow> ('a \<Rightarrow> ('px, 'b) step) \<Rightarrow> ('px, 'b) step" where
  "seq m f =
     (case m of
        (t, Inl e) \<Rightarrow> (t, Inl e)
      | (t, Inr x) \<Rightarrow> (case f x of (t', r) \<Rightarrow> (t @ t', r)))"

subsection \<open>\<^verbatim>\<open>std::ofstream\<close>\<close>

text \<open>
  Opening never throws: a stream that could not be opened is not \<open>good\<close>, and every
  insertion into it is dropped. The precision starts at 6. The file of a good stream
  holds the inserted characters once the stream is closed.
\<close>

record ofstream =
  os_path :: string
  os_good :: bool
  os_precision :: nat
  os_buf :: string

definition ofstream_open :: "filesys \<Rightarrow> string \<Rightarrow> ofstream" where
  "ofstream_open fs p = \<lparr> os_path = p, os_good = writable fs p, os_precision = 6, os_buf = [] \<rparr>"

definition put :: "ofstream \<Rightarrow> string \<Rightarrow> ofstream" where
  "put os s = (if os_good os then os\<lparr>os_buf := os_buf os @ s\<rparr> else os)"

definition put_size_t :: "ofstream \<Rightarrow> nat \<Rightarrow> ofstream" where
  "put_size_t os n = put os (decimal n)"

definition setprecision :: "nat \<Rightarrow> ofstream \<Rightarrow> ofstream" where
  "setprecision n os = os\<lparr>os_precision := n\<rparr>"

definition put_double :: "'px collaborators \<Rightarrow> ofstream \<Rightarrow> 'px \<Rightarrow> ofstream" where
  "put_double lib os v = put os (formatDouble lib (os_precision os) v)"

definition close :: "ofstream \<Rightarrow> ('px, unit) step" where
  "close os = ((if os_good os then [Wrote (os_path os) (Text (os_buf os))] else []), Inr ())"

section \<open>\<^verbatim>\<open>writeDisparityMap\<close>\<close>

text \<open>
  Lines 203 to 211: the four output paths, derived from the position of the last
  \<^verbatim>\<open>'.'\<close> of \<^verbatim>\<open>disparityPath\<close>. The result is
  (\<^verbatim>\<open>leftDisparityPath\<close>, \<^verbatim>\<open>rightDisparityPath\<close>, \<^verbatim>\<open>leftDisparityTextPath\<close>,
  \<^verbatim>\<open>rightDisparityTextPath\<close>); the statements run in the order of the source, so the
  first failing one decides the exception.
\<close>

definition output_paths :: "string \<Rightarrow> exn + (string \<times> string \<times> string \<times> string)" where
  "output_paths disparityPath =
     (let extPos = rfind disparityPath CHR ''.'' in
      case insert_str disparityPath extPos ''L'' of
        Inl e \<Rightarrow> Inl e
      | Inr leftDisparityPath \<Rightarrow>
      case insert_str disparityPath extPos ''R'' of
        Inl e \<Rightarrow> Inl e
      | Inr rightDisparityPath \<Rightarrow>
      case replace_str disparityPath extPos 10 ''L.csv'' of
        Inl e \<Rightarrow> Inl e
      | Inr leftDisparityTextPath \<Rightarrow>
      case replace_str disparityPath extPos 10 ''R.csv'' of
        Inl e \<Rightarrow> Inl e
      | Inr rightDisparityTextPath \<Rightarrow>
          Inr (leftDisparityPath, rightDisparityPath,
               leftDisparityTextPath, rightDisparityTextPath))"

text \<open>
  Line 214: \<^verbatim>\<open>StereoImagePair stereo(leftImgPath, rightImgPath)\<close> constructs
  \<^verbatim>\<open>leftImg\<close>, then \<^verbatim>\<open>rightImg\<close> (\<^verbatim>\<open>include/image.hpp\<close>, lines 76 to 83).
\<close>

definition StereoImagePair ::
  "'px collaborators \<Rightarrow> string \<Rightarrow> string \<Rightarrow> ('px, 'px Image \<times> 'px Image) step" where
  "StereoImagePair lib leftImgPath rightImgPath =
     seq ([LoadImage leftImgPath], loadImage lib leftImgPath) (\<lambda>leftImg.
     seq ([LoadImage rightImgPath], loadImage lib rightImgPath) (\<lambda>rightImg.
     lift (Inr (leftImg, rightImg))))"

text \<open>Line 217: \<^verbatim>\<open>stereo.computeDisparity()\<close>, which reads the global \<^verbatim>\<open>params\<close>.\<close>

definition call_computeDisparity ::
  "'px collaborators \<Rightarrow> Params \<Rightarrow> 'px Image \<times> 'px Image \<Rightarrow> ('px, 'px Image \<times> 'px Image) step" where
  "call_computeDisparity lib params stereo =
     ([ComputeDisparity params], computeDisparity lib params stereo)"

text \<open>
  Lines 226 to 229, the body of the inner loop: one line for the left file and one
  for the right file, both at the indices \<open>(w, h)\<close>.
\<close>

definition csv_row ::
  "'px collaborators \<Rightarrow> 'px Image \<Rightarrow> 'px Image \<Rightarrow> nat \<Rightarrow> nat \<Rightarrow>
   ofstream \<times> ofstream \<Rightarrow> ofstream \<times> ofstream" where
  "csv_row lib leftDisp rightDisp w h streams =
     (case streams of (leftDispCsv, rightDispCsv) \<Rightarrow>
       (put (put_double lib (setprecision 8 (put (put_size_t (put (put_size_t leftDispCsv w)
              '', '') h) '', '')) (get leftDisp w h)) [CHR 0x0A],
        put (put_double lib (setprecision 8 (put (put_size_t (put (put_size_t rightDispCsv w)
              '', '') h) '', '')) (get rightDisp w h)) [CHR 0x0A]))"

text \<open>
  Lines 224 to 231: \<open>w\<close> runs over \<^verbatim>\<open>leftDisp.size(0)\<close> in the outer loop, \<open>h\<close> over
  \<^verbatim>\<open>leftDisp.size(1)\<close> in the inner loop; both bounds are those of the left map.
\<close>

definition csv_loops ::
  "'px collaborators \<Rightarrow> 'px Image \<Rightarrow> 'px Image \<Rightarrow> ofstream \<times> ofstream \<Rightarrow> ofstream \<times> ofstream" where
  "csv_loops lib leftDisp rightDisp streams =
     fold (\<lambda>w. fold (\<lambda>h. csv_row lib leftDisp rightDisp w h) [0 ..< size_img leftDisp 1])
       [0 ..< size_img leftDisp 0] streams"

text \<open>
  Modelled from the spec: \<^verbatim>\<open>Image::write\<close> is not among the sources. It saves the
  image at its path; a failure to write the output is fatal, that is, an exception.
\<close>

definition write_image :: "filesys \<Rightarrow> 'px Image \<Rightarrow> ('px, unit) step" where
  "write_image fs img =
     (if writable fs (imgPath img) then ([Wrote (imgPath img) (Picture img)], Inr ())
      else ([], Inl (ImageIOError (imgPath img))))"

definition writeDisparityMap ::
  "'px collaborators \<Rightarrow> filesys \<Rightarrow> Params \<Rightarrow> string \<Rightarrow> string \<Rightarrow> string \<Rightarrow> ('px, unit) step" where
  "writeDisparityMap lib fs params leftImgPath rightImgPath disparityPath =
     seq (lift (output_paths disparityPath))
       (\<lambda>(leftDisparityPath, rightDisparityPath, leftDisparityTextPath, rightDisparityTextPath).
     seq (StereoImagePair lib leftImgPath rightImgPath) (\<lambda>stereo.
     seq (call_computeDisparity lib params stereo) (\<lambda>disparities.
       let leftDisp = fst disparities;
           rightDisp = snd disparities;
           streams = csv_loops lib leftDisp rightDisp
                       (ofstream_open fs leftDisparityTextPath,
                        ofstream_open fs rightDisparityTextPath)
       in
     seq (close (fst streams)) (\<lambda>_.
     seq (close (snd streams)) (\<lambda>_.
       let leftDisp = normalizeImage lib leftDisp;
           rightDisp = normalizeImage lib rightDisp
       in
     seq (write_image fs (setPath leftDisp leftDisparityPath)) (\<lambda>_.
     write_image fs (setPath rightDisp rightDisparityPath)))))))"

section \<open>\<^verbatim>\<open>main\<close>\<close>

text \<open>
  The process ends by a \<^verbatim>\<open>return\<close> from \<^verbatim>\<open>main\<close> or by an exception that nothing
  catches: \<^verbatim>\<open>std::terminate\<close> then aborts the process (\<^verbatim>\<open>SIGABRT\<close>), which a shell
  reports as status 134.
\<close>

datatype outcome = Returned int | Uncaught exn

definition exit_status :: "outcome \<Rightarrow> int" where
  "exit_status r = (case r of Returned n \<Rightarrow> n | Uncaught e \<Rightarrow> 134)"

text \<open>
  The caption of \<^verbatim>\<open>allOpts\<close> (lines 98 to 102); the table of options that the
  library prints after it is not modelled.
\<close>

definition usage :: string where
  "usage = ''SPMatch. Stereo matching with slanted support windows'' @ [CHR 0x0A] @
           ''Implementation of Cipollone R.'' @ [CHR 0x0A] @
           ''Usage:'' @ [CHR 0x0A] @
           ''  spmatch <left_image> <right_image>'' @ [CHR 0x0A]"

text \<open>Lines 121 to 126: every input must open for reading.\<close>

fun check_inputs :: "filesys \<Rightarrow> string list \<Rightarrow> exn + unit" where
  "check_inputs fs [] = Inr ()"
| "check_inputs fs (s # ss) =
     (if \<not> readable fs s then Inl (RuntimeError (''File not found: '' @ s))
      else check_inputs fs ss)"

definition main :: "'px collaborators \<Rightarrow> filesys \<Rightarrow> cmdline \<Rightarrow> 'px event list \<times> outcome" where
  "main lib fs cl =
     (let params = setDefaults in
      case store cl of
        Inl e \<Rightarrow> ([], Uncaught e)
      | Inr vMap \<Rightarrow>
          if count_help vMap then ([Printed usage], Returned 1)
          else
            (case notify vMap params of
               Inl e \<Rightarrow> ([], Uncaught e)
             | Inr (params, inputImages, outputPath) \<Rightarrow>
                 if length inputImages \<noteq> 2 then ([], Uncaught (RuntimeError ''Need two images''))
                 else
                   (case check_inputs fs inputImages of
                      Inl e \<Rightarrow> ([], Uncaught e)
                    | Inr _ \<Rightarrow>
                        (case writeDisparityMap lib fs params
                                (inputImages ! 0) (inputImages ! 1) outputPath of
                           (t, Inl e) \<Rightarrow> (t, Uncaught e)
                         | (t, Inr _) \<Rightarrow> (t, Returned 0)))))"

section \<open>Reference definitions and concrete inputs\<close>

text \<open>
  The text of a CSV file in the words of the specification: one line
  \<^verbatim>\<open>w, h, disparity\<close> per index pair, the disparity formatted at precision 8, the
  pairs enumerated with \<open>w\<close> as the outer index (\<open>List.product\<close> varies its second
  component fastest).
\<close>

definition csv_line :: "'px collaborators \<Rightarrow> 'px Image \<Rightarrow> nat \<Rightarrow> nat \<Rightarrow> string" where
  "csv_line lib img w h =
     decimal w @ '', '' @ decimal h @ '', '' @ formatDouble lib 8 (get img w h) @ [CHR 0x0A]"

definition csv_text :: "'px collaborators \<Rightarrow> nat \<Rightarrow> nat \<Rightarrow> 'px Image \<Rightarrow> string" where
  "csv_text lib W H img =
     concat (map (\<lambda>(w, h). csv_line lib img w h) (List.product [0 ..< W] [0 ..< H]))"

text \<open>What reaches the file of a stream: everything if it is good, nothing otherwise.\<close>

definition sent :: "ofstream \<Rightarrow> string \<Rightarrow> string" where
  "sent os s = (if os_good os then s else [])"

text \<open>
  The event of closing a CSV stream at path \<open>p\<close> that received the lines of \<open>img\<close>
  over the index range of \<open>bounds\<close>.
\<close>

definition csv_events :: "'px collaborators \<Rightarrow> filesys \<Rightarrow> string \<Rightarrow> 'px Image \<Rightarrow> 'px Image \<Rightarrow> 'px event list" where
  "csv_events lib fs p bounds img =
     (if writable fs p then [Wrote p (Text (csv_text lib (width bounds) (height bounds) img))] else [])"

text \<open>
  Concrete inputs for evaluating the model: a command line without options, one with
  two input images, a file system where everything opens, one where only the two image
  outputs of the default output path can be opened for writing, and collaborators that
  load a 2 by 2 image of zeros from any path and compute by returning the pair unchanged.
\<close>

definition no_options :: cmdline where
  "no_options =
     \<lparr> arg_help = False, arg_output = None, arg_inputs = [], arg_log = None, arg_alfa = None,
       arg_tau_col = None, arg_tau_grad = None, arg_gamma = None, arg_window_size = None,
       arg_min_d = None, arg_max_d = None, arg_iteration = None, arg_max_slope = None,
       arg_normalize_gradients = None, arg_out_of_bounds = None, arg_resize_window = None,
       arg_planes_saturation = None, arg_use_pseudorand = None, arg_const_disparities = None \<rparr>"

definition two_inputs :: cmdline where
  "two_inputs = no_options\<lparr>arg_inputs := [''l.png'', ''r.png'']\<rparr>"

definition flat_image :: "string \<Rightarrow> real Image" where
  "flat_image p = \<lparr> imgPath = p, width = 2, height = 2, pixel = (\<lambda>w h. 0) \<rparr>"

definition flat_lib :: "real collaborators" where
  "flat_lib =
     \<lparr> loadImage = (\<lambda>p. Inr (flat_image p)),
       computeDisparity = (\<lambda>params stereo. Inr stereo),
       normalizeImage = (\<lambda>img. img),
       formatDouble = (\<lambda>prec v. ''0'') \<rparr>"

definition all_files :: filesys where
  "all_files = \<lparr> readable = (\<lambda>p. True), writable = (\<lambda>p. True) \<rparr>"

definition images_only :: filesys where
  "images_only =
     \<lparr> readable = (\<lambda>p. True),
       writable = (\<lambda>p. p = ''disparityL.png'' \<or> p = ''disparityR.png'') \<rparr>"

definition no_files :: filesys where
  "no_files = \<lparr> readable = (\<lambda>p. False), writable = (\<lambda>p. True) \<rparr>"

text \<open>
  The four files that a complete run with the collaborators \<open>flat_lib\<close> writes, in
  the order of the writes: the two CSV files of a 2 by 2 map of zeros, then the two
  pictures.
\<close>

definition flat_outputs :: "string \<Rightarrow> string \<Rightarrow> string \<Rightarrow> string \<Rightarrow> real event list" where
  "flat_outputs lt rt lp rp =
     [Wrote lt (Text (''0, 0, 0'' @ [CHR 0x0A] @ ''0, 1, 0'' @ [CHR 0x0A] @
                      ''1, 0, 0'' @ [CHR 0x0A] @ ''1, 1, 0'' @ [CHR 0x0A])),
      Wrote rt (Text (''0, 0, 0'' @ [CHR 0x0A] @ ''0, 1, 0'' @ [CHR 0x0A] @
                      ''1, 0, 0'' @ [CHR 0x0A] @ ''1, 1, 0'' @ [CHR 0x0A])),
      Wrote lp (Picture (flat_image lp)),
      Wrote rp (Picture (flat_image rp))]"

section \<open>Properties of the building blocks\<close>

subsection \<open>Strings\<close>

lemma rfind_scan_append:
  "rfind_scan c (xs @ ys) i found = rfind_scan c ys (i + length xs) (rfind_scan c xs i found)"
  by (induction xs arbitrary: i found) simp_all

lemma rfind_scan_absent: "c \<notin> set xs \<Longrightarrow> rfind_scan c xs i found = found"
  by (induction xs arbitrary: i) auto

lemma rfind_absent: "c \<notin> set s \<Longrightarrow> rfind s c = None"
  by (simp add: rfind_def rfind_scan_absent)

lemma rfind_last: "c \<notin> set ext \<Longrightarrow> rfind (pre @ c # ext) c = Some (length pre)"
  by (simp add: rfind_def rfind_scan_append rfind_scan_absent)

lemma output_paths_no_dot:
  "CHR ''.'' \<notin> set disparityPath \<Longrightarrow> output_paths disparityPath = Inl OutOfRange"
  by (simp add: output_paths_def rfind_absent insert_str_def)

lemma output_paths_ext:
  "CHR ''.'' \<notin> set ext \<Longrightarrow>
   output_paths (pre @ CHR ''.'' # ext) =
     Inr (pre @ ''L.'' @ ext, pre @ ''R.'' @ ext,
          pre @ ''L.csv'' @ drop 9 ext, pre @ ''R.csv'' @ drop 9 ext)"
  by (simp add: output_paths_def rfind_last insert_str_def replace_str_def min_def)

subsection \<open>The CSV loops\<close>

lemma concat_product:
  "concat (map (\<lambda>(x, y). f x y) (List.product xs ys)) =
   concat (map (\<lambda>x. concat (map (f x) ys)) xs)"
  by (induction xs) (simp_all add: comp_def)

lemma csv_text_nested:
  "csv_text lib W H img =
   concat (map (\<lambda>w. concat (map (csv_line lib img w) [0 ..< H])) [0 ..< W])"
  by (simp add: csv_text_def concat_product)

lemma csv_row_left:
  "os_path (fst (csv_row lib ld rd w h (a, b))) = os_path a"
  "os_good (fst (csv_row lib ld rd w h (a, b))) = os_good a"
  "os_buf (fst (csv_row lib ld rd w h (a, b))) = os_buf a @ sent a (csv_line lib ld w h)"
  by (simp_all add: csv_row_def put_def put_size_t_def put_double_def setprecision_def
        csv_line_def sent_def)

lemma csv_row_right:
  "os_path (snd (csv_row lib ld rd w h (a, b))) = os_path b"
  "os_good (snd (csv_row lib ld rd w h (a, b))) = os_good b"
  "os_buf (snd (csv_row lib ld rd w h (a, b))) = os_buf b @ sent b (csv_line lib rd w h)"
  by (simp_all add: csv_row_def put_def put_size_t_def put_double_def setprecision_def
        csv_line_def sent_def)

lemma sent_append: "sent a (s @ t) = sent a s @ sent a t"
  by (simp add: sent_def)

lemma sent_cong: "os_good a' = os_good a \<Longrightarrow> sent a' s = sent a s"
  by (simp add: sent_def)

lemma inner_loop:
  "os_path (fst (fold (\<lambda>h. csv_row lib ld rd w h) hs st)) = os_path (fst st) \<and>
   os_good (fst (fold (\<lambda>h. csv_row lib ld rd w h) hs st)) = os_good (fst st) \<and>
   os_buf (fst (fold (\<lambda>h. csv_row lib ld rd w h) hs st)) =
     os_buf (fst st) @ sent (fst st) (concat (map (csv_line lib ld w) hs)) \<and>
   os_path (snd (fold (\<lambda>h. csv_row lib ld rd w h) hs st)) = os_path (snd st) \<and>
   os_good (snd (fold (\<lambda>h. csv_row lib ld rd w h) hs st)) = os_good (snd st) \<and>
   os_buf (snd (fold (\<lambda>h. csv_row lib ld rd w h) hs st)) =
     os_buf (snd st) @ sent (snd st) (concat (map (csv_line lib rd w) hs))"
proof (induction hs arbitrary: st)
  case Nil
  show ?case by (simp add: sent_def)
next
  case (Cons h hs)
  obtain a b where st: "st = (a, b)" by (cases st)
  show ?case
    using Cons.IH [of "csv_row lib ld rd w h (a, b)"]
    by (simp add: st csv_row_left csv_row_right sent_append
          sent_cong [of "fst (csv_row lib ld rd w h (a, b))" a]
          sent_cong [of "snd (csv_row lib ld rd w h (a, b))" b])
qed

lemma outer_loop:
  "os_path (fst (fold (\<lambda>w. fold (\<lambda>h. csv_row lib ld rd w h) hs) ws st)) = os_path (fst st) \<and>
   os_good (fst (fold (\<lambda>w. fold (\<lambda>h. csv_row lib ld rd w h) hs) ws st)) = os_good (fst st) \<and>
   os_buf (fst (fold (\<lambda>w. fold (\<lambda>h. csv_row lib ld rd w h) hs) ws st)) =
     os_buf (fst st) @ sent (fst st) (concat (map (\<lambda>w. concat (map (csv_line lib ld w) hs)) ws)) \<and>
   os_path (snd (fold (\<lambda>w. fold (\<lambda>h. csv_row lib ld rd w h) hs) ws st)) = os_path (snd st) \<and>
   os_good (snd (fold (\<lambda>w. fold (\<lambda>h. csv_row lib ld rd w h) hs) ws st)) = os_good (snd st) \<and>
   os_buf (snd (fold (\<lambda>w. fold (\<lambda>h. csv_row lib ld rd w h) hs) ws st)) =
     os_buf (snd st) @ sent (snd st) (concat (map (\<lambda>w. concat (map (csv_line lib rd w) hs)) ws))"
proof (induction ws arbitrary: st)
  case Nil
  show ?case by (simp add: sent_def)
next
  case (Cons w ws)
  let ?st' = "fold (\<lambda>h. csv_row lib ld rd w h) hs st"
  show ?case
    using Cons.IH [of ?st'] inner_loop [of lib ld rd w hs st]
    by (simp add: sent_append sent_cong [of "fst ?st'" "fst st"] sent_cong [of "snd ?st'" "snd st"])
qed

lemma close_csv_loops:
  "close (fst (csv_loops lib ld rd (ofstream_open fs lt, ofstream_open fs rt))) =
     ((if writable fs lt then [Wrote lt (Text (csv_text lib (width ld) (height ld) ld))] else []), Inr ())"
  "close (snd (csv_loops lib ld rd (ofstream_open fs lt, ofstream_open fs rt))) =
     ((if writable fs rt then [Wrote rt (Text (csv_text lib (width ld) (height ld) rd))] else []), Inr ())"
proof -
  define st where "st = (ofstream_open fs lt, ofstream_open fs rt)"
  define st' where "st' = csv_loops lib ld rd st"
  have st_fst: "os_path (fst st) = lt" "os_good (fst st) = writable fs lt" "os_buf (fst st) = []"
    and st_snd: "os_path (snd st) = rt" "os_good (snd st) = writable fs rt" "os_buf (snd st) = []"
    by (simp_all add: st_def ofstream_open_def)
  have loops: "st' = fold (\<lambda>w. fold (\<lambda>h. csv_row lib ld rd w h) [0 ..< height ld]) [0 ..< width ld] st"
    by (simp add: st'_def csv_loops_def size_img_def)
  have l: "os_path (fst st') = lt" "os_good (fst st') = writable fs lt"
      "os_buf (fst st') = sent (fst st) (csv_text lib (width ld) (height ld) ld)"
    and r: "os_path (snd st') = rt" "os_good (snd st') = writable fs rt"
      "os_buf (snd st') = sent (snd st) (csv_text lib (width ld) (height ld) rd)"
    using outer_loop [of lib ld rd "[0 ..< height ld]" "[0 ..< width ld]" st]
    by (simp_all add: loops st_fst st_snd csv_text_nested)
  show "close (fst (csv_loops lib ld rd (ofstream_open fs lt, ofstream_open fs rt))) =
     ((if writable fs lt then [Wrote lt (Text (csv_text lib (width ld) (height ld) ld))] else []), Inr ())"
    using l by (simp add: close_def st'_def [symmetric] st_def [symmetric] sent_def st_fst)
  show "close (snd (csv_loops lib ld rd (ofstream_open fs lt, ofstream_open fs rt))) =
     ((if writable fs rt then [Wrote rt (Text (csv_text lib (width ld) (height ld) rd))] else []), Inr ())"
    using r by (simp add: close_def st'_def [symmetric] st_def [symmetric] sent_def st_snd)
qed


subsection \<open>\<^verbatim>\<open>writeDisparityMap\<close>, statement by statement\<close>

lemma writeDisparityMap_paths_fail:
  "output_paths out = Inl e \<Longrightarrow> writeDisparityMap lib fs params l r out = ([], Inl e)"
  by (simp add: writeDisparityMap_def seq_def lift_def)

lemma writeDisparityMap_left_fail:
  "output_paths out = Inr ps \<Longrightarrow> loadImage lib l = Inl e \<Longrightarrow>
   writeDisparityMap lib fs params l r out = ([LoadImage l], Inl e)"
  by (cases ps) (simp add: writeDisparityMap_def seq_def lift_def StereoImagePair_def)

lemma writeDisparityMap_right_fail:
  "output_paths out = Inr ps \<Longrightarrow> loadImage lib l = Inr li \<Longrightarrow> loadImage lib r = Inl e \<Longrightarrow>
   writeDisparityMap lib fs params l r out = ([LoadImage l, LoadImage r], Inl e)"
  by (cases ps) (simp add: writeDisparityMap_def seq_def lift_def StereoImagePair_def)

lemma writeDisparityMap_compute_fail:
  "output_paths out = Inr ps \<Longrightarrow> loadImage lib l = Inr li \<Longrightarrow> loadImage lib r = Inr ri \<Longrightarrow>
   computeDisparity lib params (li, ri) = Inl e \<Longrightarrow>
   writeDisparityMap lib fs params l r out =
     ([LoadImage l, LoadImage r, ComputeDisparity params], Inl e)"
  by (cases ps)
     (simp add: writeDisparityMap_def seq_def lift_def StereoImagePair_def call_computeDisparity_def)

lemma writeDisparityMap_computed:
  assumes "output_paths out = Inr (lp, rp, lt, rt)"
    and "loadImage lib l = Inr li" and "loadImage lib r = Inr ri"
    and "computeDisparity lib params (li, ri) = Inr (ld, rd)"
  shows "writeDisparityMap lib fs params l r out =
     ([LoadImage l, LoadImage r, ComputeDisparity params]
        @ csv_events lib fs lt ld ld @ csv_events lib fs rt ld rd
        @ (if writable fs lp
           then Wrote lp (Picture (setPath (normalizeImage lib ld) lp))
                # (if writable fs rp
                   then [Wrote rp (Picture (setPath (normalizeImage lib rd) rp))] else [])
           else []),
      if writable fs lp then (if writable fs rp then Inr () else Inl (ImageIOError rp))
      else Inl (ImageIOError lp))"
  using assms
  by (simp add: writeDisparityMap_def seq_def lift_def StereoImagePair_def
        call_computeDisparity_def close_csv_loops write_image_def setPath_def csv_events_def
        Let_def)


subsection \<open>\<^verbatim>\<open>main\<close>, branch by branch\<close>

lemma store_args: "store cl = Inr vMap \<Longrightarrow> vm_args vMap = cl"
  by (auto simp: store_def split: option.splits sum.splits)

lemma main_store_fail: "store cl = Inl e \<Longrightarrow> main lib fs cl = ([], Uncaught e)"
  by (simp add: main_def)

lemma main_help: "store cl = Inr vMap \<Longrightarrow> arg_help cl \<Longrightarrow> main lib fs cl = ([Printed usage], Returned 1)"
  by (simp add: main_def count_help_def store_args)

lemma notify_inputs:
  "notify vMap params = Inr (params', inputImages, outputPath) \<Longrightarrow>
   inputImages = arg_inputs (vm_args vMap) \<and> outputPath = bound (arg_output (vm_args vMap)) ''disparity.png''"
  by (auto simp: notify_def Let_def split: if_splits)

lemma notify_ok:
  "arg_inputs (vm_args vMap) \<noteq> [] \<Longrightarrow>
   \<exists>params'. notify vMap params =
      Inr (params', arg_inputs (vm_args vMap), bound (arg_output (vm_args vMap)) ''disparity.png'')"
  by (simp add: notify_def Let_def)

lemma main_not_found:
  assumes "store cl = Inr vMap" and "\<not> arg_help cl" and "arg_inputs cl = [a, b]"
    and "\<not> readable fs a \<or> \<not> readable fs b"
  shows "main lib fs cl =
     ([], Uncaught (RuntimeError (''File not found: '' @ (if readable fs a then b else a))))"
proof -
  from notify_ok [of vMap setDefaults] assms(1,3) obtain params' where
    "notify vMap setDefaults = Inr (params', [a, b], bound (arg_output cl) ''disparity.png'')"
    by (auto simp: store_args)
  with assms show ?thesis
    by (auto simp: main_def count_help_def store_args)
qed

lemma main_run:
  assumes "store cl = Inr vMap" and "\<not> arg_help cl"
    and "notify vMap setDefaults = Inr (params, [a, b], out)"
    and "readable fs a" and "readable fs b"
  shows "main lib fs cl =
     (case writeDisparityMap lib fs params a b out of
        (t, Inl e) \<Rightarrow> (t, Uncaught e) | (t, Inr _) \<Rightarrow> (t, Returned 0))"
  using assms by (simp add: main_def count_help_def store_args)

subsection \<open>Runs on the concrete inputs\<close>

lemma default_paths:
  "output_paths ''disparity.png'' =
     Inr (''disparityL.png'', ''disparityR.png'', ''disparityL.csv'', ''disparityR.csv'')"
  using output_paths_ext [of "''png''" "''disparity''"] by simp

lemma flat_lib_simps:
  "loadImage flat_lib p = Inr (flat_image p)"
  "computeDisparity flat_lib params stereo = Inr stereo"
  "normalizeImage flat_lib img = img"
  "formatDouble flat_lib prec v = ''0''"
  by (simp_all add: flat_lib_def)

lemma flat_image_size: "width (flat_image p) = 2" "height (flat_image p) = 2"
  by (simp_all add: flat_image_def)

lemma flat_csv:
  "csv_text flat_lib 2 2 (flat_image p) =
     ''0, 0, 0'' @ [CHR 0x0A] @ ''0, 1, 0'' @ [CHR 0x0A] @
     ''1, 0, 0'' @ [CHR 0x0A] @ ''1, 1, 0'' @ [CHR 0x0A]"
proof -
  have "csv_text flat_lib 2 2 (flat_image p) = csv_text flat_lib 2 2 (flat_image [])"
    by (simp add: csv_text_def csv_line_def get_def flat_image_def)
  also have "\<dots> = ''0, 0, 0'' @ [CHR 0x0A] @ ''0, 1, 0'' @ [CHR 0x0A] @
     ''1, 0, 0'' @ [CHR 0x0A] @ ''1, 1, 0'' @ [CHR 0x0A]"
    by code_simp
  finally show ?thesis .
qed

lemma flat_lib_writeDisparityMap:
  assumes "output_paths out = Inr (lp, rp, lt, rt)"
  shows "writeDisparityMap flat_lib fs params l r out =
     ([LoadImage l, LoadImage r, ComputeDisparity params]
        @ csv_events flat_lib fs lt (flat_image l) (flat_image l)
        @ csv_events flat_lib fs rt (flat_image l) (flat_image r)
        @ (if writable fs lp
           then Wrote lp (Picture (flat_image lp))
                # (if writable fs rp then [Wrote rp (Picture (flat_image rp))] else [])
           else []),
      if writable fs lp then (if writable fs rp then Inr () else Inl (ImageIOError rp))
      else Inl (ImageIOError lp))"
  using writeDisparityMap_computed [OF assms, of flat_lib l "flat_image l" r "flat_image r" params
           "flat_image l" "flat_image r" fs]
  by (simp add: flat_lib_simps setPath_def flat_image_def)

lemma store_without_token:
  "arg_out_of_bounds cl = None \<Longrightarrow> store cl = Inr \<lparr> vm_args = cl, vm_out_of_bounds = None \<rparr>"
  by (simp add: store_def)

lemma two_inputs_fields:
  "arg_help two_inputs = False" "arg_inputs two_inputs = [''l.png'', ''r.png'']"
  "arg_out_of_bounds two_inputs = None" "arg_output two_inputs = None"
  by (simp_all add: two_inputs_def no_options_def)

lemma notify_two_inputs:
  "notify \<lparr> vm_args = two_inputs, vm_out_of_bounds = None \<rparr> setDefaults =
     Inr (setDefaults, [''l.png'', ''r.png''], ''disparity.png'')"
  by (simp add: notify_def two_inputs_def no_options_def bound_def setDefaults_def)

lemma flat_lib_main:
  assumes "arg_out_of_bounds cl = None" and "\<not> arg_help cl"
    and "notify \<lparr> vm_args = cl, vm_out_of_bounds = None \<rparr> setDefaults = Inr (params, [a, b], out)"
    and "output_paths out = Inr (lp, rp, lt, rt)"
  shows "main flat_lib all_files cl =
     ([LoadImage a, LoadImage b, ComputeDisparity params] @ flat_outputs lt rt lp rp, Returned 0)"
  using main_run [OF store_without_token [OF assms(1)] assms(2) assms(3), of all_files flat_lib]
  by (simp add: flat_lib_writeDisparityMap [OF assms(4)] all_files_def csv_events_def flat_csv
        flat_image_size flat_outputs_def)

lemma notify_long_ext:
  "notify \<lparr> vm_args = two_inputs\<lparr>arg_output := Some ''out.abcdefghij''\<rparr>, vm_out_of_bounds = None \<rparr>
     setDefaults =
     Inr (setDefaults, [''l.png'', ''r.png''], ''out.abcdefghij'')"
  by (simp add: notify_def two_inputs_def no_options_def bound_def setDefaults_def)

lemma long_ext_paths:
  "output_paths ''out.abcdefghij'' =
     Inr (''outL.abcdefghij'', ''outR.abcdefghij'', ''outL.csvj'', ''outR.csvj'')"
  using output_paths_ext [of "''abcdefghij''" "''out''"] by simp

subsection \<open>Further facts about \<^verbatim>\<open>main\<close> and the output paths\<close>

lemma main_no_effects:
  assumes "arg_inputs cl = [a, b]" and "\<not> readable fs a \<or> \<not> readable fs b"
  shows "main lib fs cl = ([Printed usage], Returned 1) \<or> (\<exists>e. main lib fs cl = ([], Uncaught e))"
proof (cases "store cl")
  case (Inl e)
  then show ?thesis by (simp add: main_store_fail)
next
  case (Inr vMap)
  show ?thesis
  proof (cases "arg_help cl")
    case True
    with Inr show ?thesis by (simp add: main_help)
  next
    case False
    from main_not_found [OF Inr False assms, of lib] show ?thesis by simp
  qed
qed

lemma main_returns_0:
  assumes "main lib fs cl = (t, Returned 0)"
  shows "\<exists>params a b out. writeDisparityMap lib fs params a b out = (t, Inr ())"
proof -
  from assms obtain params inputImages out r where
    w: "writeDisparityMap lib fs params (inputImages ! 0) (inputImages ! 1) out = (t, r)"
    and r: "(case r of Inl e \<Rightarrow> Uncaught e | Inr _ \<Rightarrow> Returned 0) = Returned 0"
    by (auto simp: main_def Let_def split: sum.splits if_splits prod.splits)
  from r have "r = Inr ()" by (cases r) simp_all
  with w show ?thesis by blast
qed

lemma output_paths_short_ext:
  "CHR ''.'' \<notin> set ext \<Longrightarrow> length ext \<le> 9 \<Longrightarrow>
   output_paths (pre @ CHR ''.'' # ext) =
     Inr (pre @ ''L.'' @ ext, pre @ ''R.'' @ ext, pre @ ''L.csv'', pre @ ''R.csv'')"
  by (simp add: output_paths_ext)

subsection \<open>Complete runs of \<^verbatim>\<open>writeDisparityMap\<close>\<close>

text \<open>
  What \<^verbatim>\<open>writeDisparityMap\<close> does with the result of \<^verbatim>\<open>computeDisparity\<close> when all four
  outputs can be written: the first component goes to the left CSV file and the left
  picture, the second to the right ones.
\<close>

lemma writeDisparityMap_complete_run:
  assumes "output_paths disparityPath = Inr (lp, rp, lt, rt)"
    and "loadImage lib leftImgPath = Inr leftImg"
    and "loadImage lib rightImgPath = Inr rightImg"
    and "computeDisparity lib params (leftImg, rightImg) = Inr (leftDisp, rightDisp)"
    and "writable fs lt" and "writable fs rt" and "writable fs lp" and "writable fs rp"
  shows "writeDisparityMap lib fs params leftImgPath rightImgPath disparityPath =
     ([LoadImage leftImgPath, LoadImage rightImgPath, ComputeDisparity params,
       Wrote lt (Text (csv_text lib (width leftDisp) (height leftDisp) leftDisp)),
       Wrote rt (Text (csv_text lib (width leftDisp) (height leftDisp) rightDisp)),
       Wrote lp (Picture (setPath (normalizeImage lib leftDisp) lp)),
       Wrote rp (Picture (setPath (normalizeImage lib rightDisp) rp))],
      Inr ())"
  using assms(5-8) by (simp add: writeDisparityMap_computed [OF assms(1-4)] csv_events_def)

text \<open>
  The text files of a completed run: each is one of the two CSV files and holds the
  lines of \<open>csv_text\<close>, and each of the two is there whenever its path opens for
  writing.
\<close>

lemma written_csv_files_row_major:
  assumes "writeDisparityMap lib fs params leftImgPath rightImgPath disparityPath = (t, Inr ())"
  shows "\<exists>lp rp lt rt leftImg rightImg leftDisp rightDisp.
     output_paths disparityPath = Inr (lp, rp, lt, rt) \<and>
     loadImage lib leftImgPath = Inr leftImg \<and> loadImage lib rightImgPath = Inr rightImg \<and>
     computeDisparity lib params (leftImg, rightImg) = Inr (leftDisp, rightDisp) \<and>
     (\<forall>p s. Wrote p (Text s) \<in> set t \<longrightarrow>
        (p = lt \<and> s = csv_text lib (width leftDisp) (height leftDisp) leftDisp) \<or>
        (p = rt \<and> s = csv_text lib (width leftDisp) (height leftDisp) rightDisp)) \<and>
     (writable fs lt \<longrightarrow>
        Wrote lt (Text (csv_text lib (width leftDisp) (height leftDisp) leftDisp)) \<in> set t) \<and>
     (writable fs rt \<longrightarrow>
        Wrote rt (Text (csv_text lib (width leftDisp) (height leftDisp) rightDisp)) \<in> set t)"
proof (cases "output_paths disparityPath")
  case (Inl e)
  with assms show ?thesis by (simp add: writeDisparityMap_paths_fail)
next
  case (Inr ps)
  obtain lp rp lt rt where ps: "ps = (lp, rp, lt, rt)" by (cases ps)
  show ?thesis
  proof (cases "loadImage lib leftImgPath")
    case (Inl e)
    with assms Inr show ?thesis by (simp add: writeDisparityMap_left_fail)
  next
    case li: (Inr leftImg)
    show ?thesis
    proof (cases "loadImage lib rightImgPath")
      case (Inl e)
      with assms Inr li show ?thesis by (simp add: writeDisparityMap_right_fail)
    next
      case ri: (Inr rightImg)
      show ?thesis
      proof (cases "computeDisparity lib params (leftImg, rightImg)")
        case (Inl e)
        with assms Inr li ri show ?thesis by (simp add: writeDisparityMap_compute_fail)
      next
        case d: (Inr disparities)
        obtain leftDisp rightDisp where dd: "disparities = (leftDisp, rightDisp)"
          by (cases disparities)
        from assms writeDisparityMap_computed [OF Inr [unfolded ps] li ri d [unfolded dd], of fs]
        have t: "t = [LoadImage leftImgPath, LoadImage rightImgPath, ComputeDisparity params]
                   @ csv_events lib fs lt leftDisp leftDisp @ csv_events lib fs rt leftDisp rightDisp
                   @ (if writable fs lp
                      then Wrote lp (Picture (setPath (normalizeImage lib leftDisp) lp))
                           # (if writable fs rp
                              then [Wrote rp (Picture (setPath (normalizeImage lib rightDisp) rp))]
                              else [])
                      else [])"
          by simp
        show ?thesis
          using Inr li ri d by (auto simp: ps dd t csv_events_def)
      qed
    qed
  qed
qed

text \<open>
  A run whose CSV paths do not open, while the pictures can be written, completes all
  the same and leaves no text file.
\<close>

lemma writeDisparityMap_without_csv:
  assumes "output_paths disparityPath = Inr (lp, rp, lt, rt)"
    and "loadImage lib leftImgPath = Inr leftImg"
    and "loadImage lib rightImgPath = Inr rightImg"
    and "computeDisparity lib params (leftImg, rightImg) = Inr (leftDisp, rightDisp)"
    and "\<not> writable fs lt" and "\<not> writable fs rt" and "writable fs lp" and "writable fs rp"
  shows "writeDisparityMap lib fs params leftImgPath rightImgPath disparityPath =
     ([LoadImage leftImgPath, LoadImage rightImgPath, ComputeDisparity params,
       Wrote lp (Picture (setPath (normalizeImage lib leftDisp) lp)),
       Wrote rp (Picture (setPath (normalizeImage lib rightDisp) rp))],
      Inr ())"
  using assms(5-8) by (simp add: writeDisparityMap_computed [OF assms(1-4)] csv_events_def)

section \<open>The claims\<close>

subsection \<open>C6: the tokens of \<^verbatim>\<open>--out_of_bounds\<close>\<close>

text \<open>
  Claim C6. The extraction operator maps exactly the five tokens \<^verbatim>\<open>repeat\<close>,
  \<^verbatim>\<open>black\<close>, \<^verbatim>\<open>zero\<close>, \<^verbatim>\<open>error\<close>, \<^verbatim>\<open>nan\<close> to \<open>REPEAT_PIXEL\<close>, \<open>BLACK_PIXEL\<close>,
  \<open>ZERO_COST\<close>, \<open>ERROR\<close>, \<open>NAN_COST\<close> in this order, and throws for every other token:
  it returns a value if and only if the token is one of the five, and each value is
  returned for its own token only.
\<close>

theorem operator_in_raises_iff:
  "(operator_in token = Inr REPEAT_PIXEL \<longleftrightarrow> token = ''repeat'') \<and>
   (operator_in token = Inr BLACK_PIXEL \<longleftrightarrow> token = ''black'') \<and>
   (operator_in token = Inr ZERO_COST \<longleftrightarrow> token = ''zero'') \<and>
   (operator_in token = Inr ERROR \<longleftrightarrow> token = ''error'') \<and>
   (operator_in token = Inr NAN_COST \<longleftrightarrow> token = ''nan'') \<and>
   ((\<exists>selection. operator_in token = Inr selection) \<longleftrightarrow>
      token \<in> {''repeat'', ''black'', ''zero'', ''error'', ''nan''}) \<and>
   (token \<notin> {''repeat'', ''black'', ''zero'', ''error'', ''nan''} \<longrightarrow>
      operator_in token = Inl (RuntimeError ''Invalid OutOfBounds selection''))"
  by (simp add: operator_in_def)

theorem operator_in_raises_iff_witness:
  "operator_in ''nan'' = Inr NAN_COST \<and>
   ''Repeat'' \<notin> {''repeat'', ''black'', ''zero'', ''error'', ''nan''} \<and>
   operator_in ''Repeat'' = Inl (RuntimeError ''Invalid OutOfBounds selection'')"
  using operator_in_raises_iff [of "''nan''"] operator_in_raises_iff [of "''Repeat''"]
  by simp

subsection \<open>C9: an output path without a dot\<close>

text \<open>
  Claim C9. \<^verbatim>\<open>writeDisparityMap\<close> derives its output paths from the position of the
  last \<^verbatim>\<open>'.'\<close> of the output argument. For every output path that contains no
  \<^verbatim>\<open>'.'\<close>, the string operations throw \<^verbatim>\<open>std::out_of_range\<close> before any input image
  is read: the function ends with that exception and has caused no event, so no image
  was loaded, nothing was computed and no file was written. (When there is a dot, the
  four paths are those of \<open>output_paths_ext\<close>.)
\<close>

theorem writeDisparityMap_without_dot:
  "CHR ''.'' \<notin> set disparityPath \<Longrightarrow>
   writeDisparityMap lib fs params leftImgPath rightImgPath disparityPath = ([], Inl OutOfRange)"
  by (simp add: writeDisparityMap_paths_fail output_paths_no_dot)

theorem writeDisparityMap_without_dot_witness:
  "CHR ''.'' \<notin> set ''disparity'' \<and>
   writeDisparityMap flat_lib all_files setDefaults ''l.png'' ''r.png'' ''disparity'' =
     ([], Inl OutOfRange)"
  using writeDisparityMap_without_dot
          [of "''disparity''" flat_lib all_files setDefaults "''l.png''" "''r.png''"]
  by simp

subsection \<open>C4: the text of the CSV files\<close>

text \<open>
  Claim C4 says that for every run that completes, the two CSV output files contain one
  line \<^verbatim>\<open>w, h, disparity\<close> per pixel. The run of \<^verbatim>\<open>writeDisparityMap\<close> below completes:
  it returns normally, after which \<^verbatim>\<open>main\<close> returns 0. Its two CSV paths cannot be
  opened for writing, the streams are never tested (lines 222 to 233), every line is
  dropped, and the run writes the two pictures and no CSV file at all. (For a path
  that opens, the file holds the lines as claimed: \<open>written_csv_files_row_major\<close>.)
\<close>

theorem completed_run_without_csv_files:
  "\<not> writable images_only ''disparityL.csv'' \<and> \<not> writable images_only ''disparityR.csv'' \<and>
   writeDisparityMap flat_lib images_only setDefaults ''l.png'' ''r.png'' ''disparity.png'' =
     ([LoadImage ''l.png'', LoadImage ''r.png'', ComputeDisparity setDefaults,
       Wrote ''disparityL.png'' (Picture (flat_image ''disparityL.png'')),
       Wrote ''disparityR.png'' (Picture (flat_image ''disparityR.png''))],
      Inr ())"
  by (simp add: flat_lib_writeDisparityMap [OF default_paths] csv_events_def images_only_def)

subsection \<open>C7: an unreadable input image\<close>

text \<open>
  Claim C7, as amended. For every invocation without \<^verbatim>\<open>--help\<close> that has two input
  image paths of which at least one cannot be opened for reading, the program fails
  fatally with a user-facing error before the disparity computation starts: \<^verbatim>\<open>main\<close>
  ends by an exception that nothing catches, its exit status is not 0, and no image has
  been loaded, nothing computed and nothing written. When the option values were stored
  without error, the exception is the \<^verbatim>\<open>std::runtime_error\<close> with the message
  \<^verbatim>\<open>File not found: \<close> followed by the first unreadable path.
\<close>

theorem unreadable_input_is_fatal:
  assumes "\<not> arg_help cl" and "arg_inputs cl = [a, b]"
    and "\<not> readable fs a \<or> \<not> readable fs b"
  shows "(\<exists>e. main lib fs cl = ([], Uncaught e)) \<and>
     exit_status (snd (main lib fs cl)) \<noteq> 0 \<and>
     ((\<exists>vMap. store cl = Inr vMap) \<longrightarrow>
        main lib fs cl =
          ([], Uncaught (RuntimeError (''File not found: '' @ (if readable fs a then b else a)))))"
proof -
  have found: "main lib fs cl =
          ([], Uncaught (RuntimeError (''File not found: '' @ (if readable fs a then b else a))))"
    if "store cl = Inr vMap" for vMap
    using main_not_found [OF that assms, of lib] .
  have fatal: "\<exists>e. main lib fs cl = ([], Uncaught e)"
  proof (cases "store cl")
    case (Inl e)
    then show ?thesis by (simp add: main_store_fail)
  next
    case (Inr vMap)
    from found [OF Inr] show ?thesis by simp
  qed
  then have "exit_status (snd (main lib fs cl)) \<noteq> 0"
    by (auto simp: exit_status_def)
  with found fatal show ?thesis by blast
qed

theorem unreadable_input_is_fatal_witness:
  "\<not> arg_help two_inputs \<and>
   arg_inputs two_inputs = [''l.png'', ''r.png''] \<and>
   \<not> readable no_files ''l.png'' \<and>
   store two_inputs = Inr \<lparr> vm_args = two_inputs, vm_out_of_bounds = None \<rparr> \<and>
   main flat_lib no_files two_inputs = ([], Uncaught (RuntimeError ''File not found: l.png''))"
proof -
  have h: "\<not> arg_help two_inputs"
    and i: "arg_inputs two_inputs = [''l.png'', ''r.png'']"
    and u: "\<not> readable no_files ''l.png'' \<or> \<not> readable no_files ''r.png''"
    and s: "store two_inputs = Inr \<lparr> vm_args = two_inputs, vm_out_of_bounds = None \<rparr>"
    by (simp_all add: two_inputs_fields no_files_def store_without_token)
  from unreadable_input_is_fatal [OF h i u, of flat_lib] s
  have "main flat_lib no_files two_inputs =
          ([], Uncaught (RuntimeError (''File not found: '' @
             (if readable no_files ''l.png'' then ''r.png'' else ''l.png''))))"
    by blast
  with h i u s show ?thesis by (simp add: no_files_def)
qed

text \<open>
  The claim as it was stated fails when \<^verbatim>\<open>--help\<close> is given together with the two
  unreadable paths: the test for \<^verbatim>\<open>help\<close> (line 110) comes before the input files are
  opened (lines 121 to 126), so the program prints the usage text and returns 1, and
  no error is raised. This does not depend on the collaborators (\<open>main_help\<close>).
\<close>

theorem help_with_unreadable_inputs:
  "arg_help (two_inputs\<lparr>arg_help := True\<rparr>) \<and>
   arg_inputs (two_inputs\<lparr>arg_help := True\<rparr>) = [''l.png'', ''r.png''] \<and>
   \<not> readable no_files ''l.png'' \<and> \<not> readable no_files ''r.png'' \<and>
   main flat_lib no_files (two_inputs\<lparr>arg_help := True\<rparr>) = ([Printed usage], Returned 1)"
proof -
  have s: "store (two_inputs\<lparr>arg_help := True\<rparr>) =
      Inr \<lparr> vm_args = two_inputs\<lparr>arg_help := True\<rparr>, vm_out_of_bounds = None \<rparr>"
    by (rule store_without_token) (simp add: two_inputs_fields)
  show ?thesis
    using main_help [OF s, of flat_lib no_files]
    by (simp add: two_inputs_fields no_files_def)
qed

subsection \<open>C10: help comes before the check of required options\<close>

text \<open>
  Claim C10, as amended. If \<^verbatim>\<open>--help\<close> is present and the option values were stored
  without error (line 106 returned; in particular the token of \<^verbatim>\<open>--out_of_bounds\<close>, if
  given, is one of the five), the program prints the usage text and returns 1 before
  the check of required options runs: this holds whatever the input images are, also
  when none is given.
\<close>

theorem help_before_required_check:
  "store cl = Inr vMap \<Longrightarrow> arg_help cl \<Longrightarrow>
   main lib fs cl = ([Printed usage], Returned 1)"
  by (rule main_help)

theorem help_before_required_check_witness:
  "store (no_options\<lparr>arg_help := True\<rparr>) =
     Inr \<lparr> vm_args = no_options\<lparr>arg_help := True\<rparr>, vm_out_of_bounds = None \<rparr> \<and>
   arg_help (no_options\<lparr>arg_help := True\<rparr>) \<and>
   arg_inputs (no_options\<lparr>arg_help := True\<rparr>) = [] \<and>
   notify \<lparr> vm_args = no_options\<lparr>arg_help := True\<rparr>, vm_out_of_bounds = None \<rparr> setDefaults =
     Inl (RequiredOption ''inputs'') \<and>
   main flat_lib all_files (no_options\<lparr>arg_help := True\<rparr>) = ([Printed usage], Returned 1)"
proof -
  have s: "store (no_options\<lparr>arg_help := True\<rparr>) =
      Inr \<lparr> vm_args = no_options\<lparr>arg_help := True\<rparr>, vm_out_of_bounds = None \<rparr>"
    by (simp add: store_def no_options_def)
  have h: "arg_help (no_options\<lparr>arg_help := True\<rparr>)" by simp
  show ?thesis
    using help_before_required_check [OF s h, of flat_lib all_files] s
    by (simp add: notify_def no_options_def)
qed

text \<open>
  The claim as it was stated fails when the command line carries \<^verbatim>\<open>--help\<close> together
  with an unknown \<^verbatim>\<open>--out_of_bounds\<close> token: \<^verbatim>\<open>po::store\<close> runs before the test for
  \<^verbatim>\<open>help\<close>, the extraction operator throws there, and no usage text is printed.
\<close>

theorem help_with_bad_token:
  "arg_help (no_options\<lparr>arg_help := True, arg_out_of_bounds := Some ''white''\<rparr>) \<and>
   main flat_lib all_files (no_options\<lparr>arg_help := True, arg_out_of_bounds := Some ''white''\<rparr>) =
     ([], Uncaught (RuntimeError ''Invalid OutOfBounds selection''))"
  by (simp add: main_store_fail store_def operator_in_def)

subsection \<open>C1: invalid parameters\<close>




subsection \<open>C3: exit codes\<close>

text \<open>
  Claim C3 says that the exit code is not 0 whenever an output cannot be written. The
  run below has two readable inputs and the default output path; the two CSV files
  cannot be opened for writing, the two pictures can. The streams are never tested, the
  lines are dropped, no CSV file is written, and \<^verbatim>\<open>main\<close> returns 0.
\<close>

theorem unwritable_csv_exits_0:
  "\<not> writable images_only ''disparityL.csv'' \<and> \<not> writable images_only ''disparityR.csv'' \<and>
   main flat_lib images_only two_inputs =
     ([LoadImage ''l.png'', LoadImage ''r.png'', ComputeDisparity setDefaults,
       Wrote ''disparityL.png'' (Picture (flat_image ''disparityL.png'')),
       Wrote ''disparityR.png'' (Picture (flat_image ''disparityR.png''))],
      Returned 0) \<and>
   exit_status (snd (main flat_lib images_only two_inputs)) = 0"
proof -
  have r: "readable images_only p" for p by (simp add: images_only_def)
  have "main flat_lib images_only two_inputs =
     ([LoadImage ''l.png'', LoadImage ''r.png'', ComputeDisparity setDefaults,
       Wrote ''disparityL.png'' (Picture (flat_image ''disparityL.png'')),
       Wrote ''disparityR.png'' (Picture (flat_image ''disparityR.png''))],
      Returned 0)"
    using main_run [OF store_without_token _ notify_two_inputs r r, of flat_lib]
    by (simp add: two_inputs_fields flat_lib_writeDisparityMap [OF default_paths] csv_events_def
          images_only_def)
  then show ?thesis by (simp add: exit_status_def images_only_def)
qed

subsection \<open>C5: the four output paths\<close>

text \<open>
  Claim C5 says that for an output argument \<^verbatim>\<open>path/name.ext\<close> the text files are
  \<^verbatim>\<open>path/nameL.csv\<close> and \<^verbatim>\<open>path/nameR.csv\<close>. \<^verbatim>\<open>replace(extPos, 10, ...)\<close> removes at most
  ten characters, so an extension of ten or more characters leaves a tail behind the
  new suffix (\<open>output_paths_ext\<close>; for up to nine characters the paths are as claimed,
  \<open>output_paths_short_ext\<close>). The run below has the output argument
  \<^verbatim>\<open>out.abcdefghij\<close> and writes its CSV files to \<^verbatim>\<open>outL.csvj\<close> and \<^verbatim>\<open>outR.csvj\<close>.
\<close>

theorem long_extension_csv_path:
  "main flat_lib all_files (two_inputs\<lparr>arg_output := Some ''out.abcdefghij''\<rparr>) =
     ([LoadImage ''l.png'', LoadImage ''r.png'', ComputeDisparity setDefaults]
        @ flat_outputs ''outL.csvj'' ''outR.csvj'' ''outL.abcdefghij'' ''outR.abcdefghij'',
      Returned 0)"
  by (rule flat_lib_main [OF _ _ notify_long_ext long_ext_paths]) (simp_all add: two_inputs_fields)

end
